theory Spec2Isabelle
  imports Complex_Main "HOL-Library.AList"
begin

section \<open>JavaScript values\<close>

text \<open>
  The orchestrator (\<^verbatim>\<open>src/master.ts\<close>) receives untyped message payloads and untyped
  documents of the identity store, and tests them with \<^verbatim>\<open>typeof\<close>, truthiness, \<^verbatim>\<open>===\<close> and
  \<^verbatim>\<open>==\<close>. The values are therefore modelled as a datatype. A string is a list of
  characters, one per code unit (code units below 256). A number is a rational, or one of the
  three special values; arithmetic on numbers is exact.
\<close>

datatype jsnum = NaN | Infty bool | Fin rat

datatype jsval =
    Undefined
  | Null
  | Bool bool
  | Num jsnum
  | Str string
  | Obj "(string \<times> jsval) list"

text \<open>Truthiness, as \<^verbatim>\<open>if (v)\<close>, \<^verbatim>\<open>!v\<close> and \<^verbatim>\<open>a && b\<close> test it.\<close>

fun truthy :: "jsval \<Rightarrow> bool" where
  "truthy Undefined = False"
| "truthy Null = False"
| "truthy (Bool b) = b"
| "truthy (Num NaN) = False"
| "truthy (Num (Infty b)) = True"
| "truthy (Num (Fin q)) = (q \<noteq> 0)"
| "truthy (Str s) = (s \<noteq> [])"
| "truthy (Obj fs) = True"

text \<open>\<^verbatim>\<open>typeof v == 'string'\<close>.\<close>

fun is_string :: "jsval \<Rightarrow> bool" where
  "is_string (Str s) = True"
| "is_string v = False"

text \<open>
  Reading a property \<^verbatim>\<open>v.k\<close>. On an object it is the field, or \<^verbatim>\<open>undefined\<close>
  when the object has none; on a boolean, number or string none of the properties the
  orchestrator reads exists; on \<^verbatim>\<open>null\<close> and \<^verbatim>\<open>undefined\<close> the read throws a TypeError.
\<close>

datatype error = TypeError

fun field :: "jsval \<Rightarrow> string \<Rightarrow> jsval" where
  "field (Obj fs) k = (case map_of fs k of None \<Rightarrow> Undefined | Some v \<Rightarrow> v)"
| "field v k = Undefined"

fun readable :: "jsval \<Rightarrow> bool" where
  "readable Undefined = False"
| "readable Null = False"
| "readable v = True"

subsection \<open>Strings\<close>

text \<open>White space as \<^verbatim>\<open>String.prototype.trim\<close> and the number parsers skip it.\<close>

definition is_ws :: "char \<Rightarrow> bool" where
  "is_ws c = (of_char c \<in> {9, 10, 11, 12, 13, 32, 160 :: int})"

definition trim :: "string \<Rightarrow> string" where
  "trim s = rev (dropWhile is_ws (rev (dropWhile is_ws s)))"

text \<open>\<^verbatim>\<open>String.prototype.toLowerCase\<close> on code units below 256.\<close>

definition lower_char :: "char \<Rightarrow> char" where
  "lower_char c =
     (let n = of_char c :: int
      in if (65 \<le> n \<and> n \<le> 90) \<or> (192 \<le> n \<and> n \<le> 214) \<or> (216 \<le> n \<and> n \<le> 222)
         then char_of (n + 32) else c)"

definition toLowerCase :: "string \<Rightarrow> string" where
  "toLowerCase s = map lower_char s"

text \<open>\<^verbatim>\<open>s.split(c)\<close> for a one-character separator: never empty, pieces may be.\<close>

fun split :: "char \<Rightarrow> string \<Rightarrow> string list" where
  "split c [] = [[]]"
| "split c (x # xs) =
     (if x = c then [] # split c xs
      else (case split c xs of [] \<Rightarrow> [[x]] | p # ps \<Rightarrow> (x # p) # ps))"

subsection \<open>Numbers from strings\<close>

definition digit_of :: "char \<Rightarrow> int option" where
  "digit_of c =
     (let n = of_char c :: int
      in if 48 \<le> n \<and> n \<le> 57 then Some (n - 48)
         else if 97 \<le> n \<and> n \<le> 122 then Some (n - 87)
         else if 65 \<le> n \<and> n \<le> 90 then Some (n - 55)
         else None)"

definition is_digit :: "int \<Rightarrow> char \<Rightarrow> bool" where
  "is_digit radix c = (case digit_of c of None \<Rightarrow> False | Some d \<Rightarrow> d < radix)"

definition digits_value :: "int \<Rightarrow> string \<Rightarrow> int" where
  "digits_value radix ds = foldl (\<lambda>acc c. acc * radix + (case digit_of c of None \<Rightarrow> 0 | Some d \<Rightarrow> d)) 0 ds"

text \<open>
  \<^verbatim>\<open>parseInt(s)\<close> with no radix: leading white space is skipped, a sign is read, a
  \<^verbatim>\<open>0x\<close> prefix selects radix 16, and the longest prefix of digits is the value;
  \<^verbatim>\<open>None\<close> is NaN (no digit at all).
\<close>

definition has_hex_prefix :: "string \<Rightarrow> bool" where
  "has_hex_prefix s = (take 2 s = ''0x'' \<or> take 2 s = ''0X'')"

definition parseInt :: "string \<Rightarrow> int option" where
  "parseInt s =
     (let t = dropWhile is_ws s;
          neg = (take 1 t = ''-'');
          u = (if take 1 t = ''-'' \<or> take 1 t = ''+'' then drop 1 t else t);
          radix = (if has_hex_prefix u then 16 else 10);
          v = (if has_hex_prefix u then drop 2 u else u);
          z = takeWhile (is_digit radix) v
      in if z = [] then None
         else Some ((if neg then - 1 else 1) * digits_value radix z))"

text \<open>
  The conversion of a string to a number that \<^verbatim>\<open>==\<close> applies (StringToNumber): white
  space is trimmed on both sides, the empty string is 0, a \<^verbatim>\<open>0x\<close>, \<^verbatim>\<open>0o\<close> or
  \<^verbatim>\<open>0b\<close> prefix introduces an unsigned integer in that radix, and otherwise the string is
  a signed decimal literal with an optional fraction and exponent, or \<^verbatim>\<open>Infinity\<close>.
  Anything else is NaN.
\<close>

definition radix_literal :: "int \<Rightarrow> string \<Rightarrow> jsnum" where
  "radix_literal radix ds =
     (if ds \<noteq> [] \<and> list_all (is_digit radix) ds then Fin (of_int (digits_value radix ds))
      else NaN)"

definition exponent_part :: "string \<Rightarrow> int option" where
  "exponent_part r =
     (if r = [] then Some 0
      else (let e = drop 1 r;
                neg = (take 1 e = ''-'');
                ds = (if take 1 e = ''-'' \<or> take 1 e = ''+'' then drop 1 e else e)
            in if ds \<noteq> [] \<and> list_all (is_digit 10) ds
               then Some ((if neg then - 1 else 1) * digits_value 10 ds)
               else None))"

definition mantissa_part :: "string \<Rightarrow> rat option" where
  "mantissa_part m =
     (let ip = takeWhile (is_digit 10) m;
          rest = dropWhile (is_digit 10) m
      in if rest = [] then (if ip = [] then None else Some (of_int (digits_value 10 ip)))
         else if take 1 rest = ''.'' \<and> list_all (is_digit 10) (drop 1 rest)
                 \<and> (ip \<noteq> [] \<or> drop 1 rest \<noteq> [])
         then Some (of_int (digits_value 10 ip)
                    + of_int (digits_value 10 (drop 1 rest)) / 10 ^ length (drop 1 rest))
         else None)"

definition scale10 :: "rat \<Rightarrow> int \<Rightarrow> rat" where
  "scale10 q e = (if 0 \<le> e then q * 10 ^ nat e else q / 10 ^ nat (- e))"

definition is_exp_mark :: "char \<Rightarrow> bool" where
  "is_exp_mark c = (c = CHR ''e'' \<or> c = CHR ''E'')"

definition decimal_literal :: "string \<Rightarrow> jsnum" where
  "decimal_literal t =
     (let neg = (take 1 t = ''-'');
          u = (if take 1 t = ''-'' \<or> take 1 t = ''+'' then drop 1 t else t)
      in if u = ''Infinity'' then Infty (\<not> neg)
         else (case (mantissa_part (takeWhile (\<lambda>c. \<not> is_exp_mark c) u),
                     exponent_part (dropWhile (\<lambda>c. \<not> is_exp_mark c) u)) of
                 (Some q, Some e) \<Rightarrow> Fin ((if neg then - 1 else 1) * scale10 q e)
               | _ \<Rightarrow> NaN))"

definition StringToNumber :: "string \<Rightarrow> jsnum" where
  "StringToNumber s =
     (let t = trim s
      in if t = [] then Fin 0
         else if has_hex_prefix t then radix_literal 16 (drop 2 t)
         else if take 2 t = ''0o'' \<or> take 2 t = ''0O'' then radix_literal 8 (drop 2 t)
         else if take 2 t = ''0b'' \<or> take 2 t = ''0B'' then radix_literal 2 (drop 2 t)
         else decimal_literal t)"

subsection \<open>Equality\<close>

text \<open>
  Comparison of numbers: NaN equals nothing, itself included. \<open>Infty True\<close> is
  \<^verbatim>\<open>+Infinity\<close>.
\<close>

fun num_eq :: "jsnum \<Rightarrow> jsnum \<Rightarrow> bool" where
  "num_eq (Fin a) (Fin b) = (a = b)"
| "num_eq (Infty a) (Infty b) = (a = b)"
| "num_eq a b = False"

fun nullish :: "jsval \<Rightarrow> bool" where
  "nullish Undefined = True"
| "nullish Null = True"
| "nullish v = False"

fun is_object :: "jsval \<Rightarrow> bool" where
  "is_object (Obj fs) = True"
| "is_object v = False"

text \<open>
  \<^verbatim>\<open>a === b\<close> and \<^verbatim>\<open>a == b\<close>, for two values of different origin (one read from the
  store, the other from a message or computed): two objects are then never the same
  object. A plain object converts to the primitive \<^verbatim>\<open>"[object Object]"\<close>; payload arrays
  are not modelled.
\<close>

fun strict_eq :: "jsval \<Rightarrow> jsval \<Rightarrow> bool" where
  "strict_eq Undefined Undefined = True"
| "strict_eq Null Null = True"
| "strict_eq (Bool a) (Bool b) = (a = b)"
| "strict_eq (Num a) (Num b) = num_eq a b"
| "strict_eq (Str a) (Str b) = (a = b)"
| "strict_eq a b = False"

fun ToPrimitive :: "jsval \<Rightarrow> jsval" where
  "ToPrimitive (Obj fs) = Str ''[object Object]''"
| "ToPrimitive v = v"

fun ToNumber :: "jsval \<Rightarrow> jsnum" where
  "ToNumber Undefined = NaN"
| "ToNumber Null = Fin 0"
| "ToNumber (Bool b) = Fin (if b then 1 else 0)"
| "ToNumber (Num n) = n"
| "ToNumber (Str s) = StringToNumber s"
| "ToNumber (Obj fs) = NaN"

definition loose_eq :: "jsval \<Rightarrow> jsval \<Rightarrow> bool" where
  "loose_eq x y =
     (if nullish x \<or> nullish y then nullish x \<and> nullish y
      else if is_object x \<and> is_object y then False
      else (case (ToPrimitive x, ToPrimitive y) of
              (Str s, Str t) \<Rightarrow> s = t
            | (a, b) \<Rightarrow> num_eq (ToNumber a) (ToNumber b)))"

section \<open>The identity store\<close>

text \<open>
  The identity store is an external collaborator: a tree of values addressed by
  slash-separated paths, with \<^verbatim>\<open>get\<close>, \<^verbatim>\<open>set\<close> (full replace), \<^verbatim>\<open>update\<close> (merge) and
  \<^verbatim>\<open>remove\<close>, and an equality-filtered query. An absent node reads as \<^verbatim>\<open>null\<close>, and
  writing \<^verbatim>\<open>null\<close> removes a node. The children of a node are kept in an association list
  whose order stands for the order in which the store enumerates them.
\<close>

definition split_path :: "string \<Rightarrow> string list" where
  "split_path p = filter (\<lambda>seg. seg \<noteq> []) (split CHR ''/'' p)"

fun child :: "jsval \<Rightarrow> string \<Rightarrow> jsval" where
  "child (Obj fs) k = (case map_of fs k of None \<Rightarrow> Null | Some v \<Rightarrow> v)"
| "child v k = Null"

fun node_at :: "jsval \<Rightarrow> string list \<Rightarrow> jsval" where
  "node_at t [] = t"
| "node_at t (k # ks) = node_at (child t k) ks"

fun children :: "jsval \<Rightarrow> (string \<times> jsval) list" where
  "children (Obj fs) = fs"
| "children v = []"

definition put_child :: "jsval \<Rightarrow> string \<Rightarrow> jsval \<Rightarrow> jsval" where
  "put_child t k v =
     (let fs = (if v = Null then AList.delete k (children t) else AList.update k v (children t))
      in if fs = [] then Null else Obj fs)"

fun tree_set :: "jsval \<Rightarrow> string list \<Rightarrow> jsval \<Rightarrow> jsval" where
  "tree_set t [] v = v"
| "tree_set t (k # ks) v = put_child t k (tree_set (child t k) ks v)"

definition tree_update :: "jsval \<Rightarrow> string list \<Rightarrow> jsval \<Rightarrow> jsval" where
  "tree_update t ps d = foldl (\<lambda>t' (k, v). tree_set t' (ps @ [k]) v) t (children d)"

text \<open>\<^verbatim>\<open>ref.orderByChild(k).equalTo(v)\<close>: the children whose child \<open>k\<close> is \<open>v\<close>.\<close>

definition equalTo :: "jsval \<Rightarrow> jsval \<Rightarrow> jsval \<Rightarrow> jsval" where
  "equalTo node orderKey orderValue =
     (case orderKey of
        Str k \<Rightarrow> Obj (filter (\<lambda>(key, doc). child doc k = orderValue) (children node))
      | _ \<Rightarrow> Null)"

definition snap_exists :: "jsval \<Rightarrow> bool" where
  "snap_exists snap = (snap \<noteq> Null \<and> snap \<noteq> Obj [])"

section \<open>Players and the orchestrator's state\<close>

text \<open>
  Player objects are shared and mutated through references (the stale registry, the
  active set and the handler's argument may all name the same object), so they live in a
  store \<open>objs\<close> from references to objects. \<open>idP\<close> is the field \<^verbatim>\<open>id\<close>. Calls into the
  collaborators (a player's methods, the lobby, the identity store's writes) are
  recorded, in order, in \<open>trace\<close>. The active set is a list without repetition, in the
  order of insertion, which is the order in which a \<^verbatim>\<open>Set\<close> is iterated. The set of game
  rooms is not touched by the code modelled here and is left out.
\<close>

type_synonym pref = nat
type_synonym sockref = nat

record Player =
  sock :: "sockref option"
  idP :: int
  dbRef :: string
  status :: jsval

datatype DBMode = WRITE | UPDATE | REMOVE

datatype event =
    Send pref string jsval "bool option"
  | SwitchState pref "sockref option"
  | PostAuth pref jsval string jsval "bool option"
  | FireDisconnection pref bool
  | DbSet DBMode string jsval
  | AddFinder pref jsval jsval
  | RemoveFinder pref

record master =
  db :: jsval
  objs :: "pref \<Rightarrow> Player"
  stalePlayers :: "string \<rightharpoonup> pref"
  players :: "pref list"
  pIds :: int
  trace :: "event list"

text \<open>
  What the handlers take from outside: the clock, the random source, and the functions of
  \<^verbatim>\<open>Utility\<close> and \<^verbatim>\<open>Lobby\<close>, which are not part of \<^verbatim>\<open>master.ts\<close>. \<open>hash v alg\<close> is
  \<^verbatim>\<open>Utility.hash(v, alg)\<close>, with \<open>None\<close> for an omitted algorithm.
\<close>

record env =
  now :: int
  random :: rat
  hash :: "jsval \<Rightarrow> string option \<Rightarrow> string"
  isValidPassword :: "string \<Rightarrow> bool"
  isValidEmail :: "string \<Rightarrow> bool"
  addFinder :: "pref \<Rightarrow> jsval \<Rightarrow> jsval \<Rightarrow> bool"

subsection \<open>The methods of Player\<close>

text \<open>
  Modelled from the spec: \<^verbatim>\<open>Player.send(type, data, isTerminal?)\<close>, of the module
  \<^verbatim>\<open>./player\<close> that \<^verbatim>\<open>master.ts\<close> imports. It is a best-effort delivery of a typed message to the bound connection
  and changes nothing else. The flag is \<open>None\<close> when the call omits it.
\<close>

definition send :: "master \<Rightarrow> pref \<Rightarrow> string \<Rightarrow> jsval \<Rightarrow> bool option \<Rightarrow> master" where
  "send s plr type data terminal = s\<lparr>trace := trace s @ [Send plr type data terminal]\<rparr>"

text \<open>
  Modelled from the spec: \<^verbatim>\<open>Player.switchState(newConnection?)\<close>, of the module
  \<^verbatim>\<open>./player\<close>. With a connection, the player's channel is swapped to it and the player
  re-enters the active flows; with none, the player releases its connection and its
  ephemeral id is invalidated, to the value \<open>-1\<close> that \<^verbatim>\<open>tryRespawn\<close> assigns as well (a
  player without a live connection is not in the active set).
\<close>

definition switchState :: "master \<Rightarrow> pref \<Rightarrow> sockref option \<Rightarrow> master" where
  "switchState s plr newSock =
     (case newSock of
        Some c \<Rightarrow>
          s\<lparr>objs := (objs s)(plr := (objs s plr)\<lparr>sock := Some c\<rparr>),
            players := (if plr \<in> set (players s) then players s else players s @ [plr]),
            trace := trace s @ [SwitchState plr newSock]\<rparr>
      | None \<Rightarrow>
          s\<lparr>objs := (objs s)(plr := (objs s plr)\<lparr>sock := None, idP := - 1\<rparr>),
            players := removeAll plr (players s),
            trace := trace s @ [SwitchState plr newSock]\<rparr>)"

text \<open>
  Modelled from the spec: \<^verbatim>\<open>Player.postAuth(name, persistentRef, queue?, isRespawn?)\<close>,
  of the module \<^verbatim>\<open>./player\<close>. It binds the persistent reference; the notification of the
  client and the forwarding of the queue request to the lobby are the recorded call.
\<close>

definition postAuth ::
  "master \<Rightarrow> pref \<Rightarrow> jsval \<Rightarrow> string \<Rightarrow> jsval \<Rightarrow> bool option \<Rightarrow> master" where
  "postAuth s plr nm ref queue isRespawn =
     s\<lparr>objs := (objs s)(plr := (objs s plr)\<lparr>dbRef := ref\<rparr>),
       trace := trace s @ [PostAuth plr nm ref queue isRespawn]\<rparr>"

text \<open>
  Modelled from the spec: \<^verbatim>\<open>Player.fireDisconnection(explicit)\<close>, of the module
  \<^verbatim>\<open>./player\<close>. An authenticated player is moved into the stale registry when the
  disconnection is not explicit, and torn down entirely when it is; an unauthenticated one
  is discarded.
\<close>

definition fireDisconnection :: "master \<Rightarrow> pref \<Rightarrow> bool \<Rightarrow> master" where
  "fireDisconnection s plr explicit =
     (let s' = s\<lparr>objs := (objs s)(plr := (objs s plr)\<lparr>sock := None\<rparr>),
                 players := removeAll plr (players s),
                 trace := trace s @ [FireDisconnection plr explicit]\<rparr>
      in if dbRef (objs s plr) \<noteq> [] \<and> \<not> explicit
         then s'\<lparr>stalePlayers := (stalePlayers s)(dbRef (objs s plr) \<mapsto> plr)\<rparr>
         else s')"

section \<open>The orchestrator\<close>

subsection \<open>dbGet and dbSet\<close>

text \<open>
  \<open>db\<close> is the content of the store behind \<^verbatim>\<open>Master.db\<close>. The calls are awaited one after
  the other, and the paths are taken to be valid keys of the store.
\<close>

definition dbGet :: "master \<Rightarrow> string \<Rightarrow> jsval \<Rightarrow> jsval \<Rightarrow> jsval" where
  "dbGet s path orderKey orderValue =
     (let ref = node_at (db s) (split_path path);
          snap = (if truthy orderKey \<and> truthy orderValue then equalTo ref orderKey orderValue
                  else ref)
      in if \<not> snap_exists snap then Null else snap)"

definition dbSet :: "master \<Rightarrow> DBMode \<Rightarrow> string \<Rightarrow> jsval \<Rightarrow> master" where
  "dbSet s mode path data =
     s\<lparr>db := (case mode of
                WRITE \<Rightarrow> tree_set (db s) (split_path path) data
              | UPDATE \<Rightarrow> tree_update (db s) (split_path path) data
              | REMOVE \<Rightarrow> tree_set (db s) (split_path path) Null),
       trace := trace s @ [DbSet mode path data]\<rparr>"

subsection \<open>broadcast\<close>

text \<open>
  The third parameter is absent or falsy (\<open>None\<close>), a function, or a player. The boolean
  that \<open>CheckFn f\<close> gives for a player is the truthiness of what the function returns.
\<close>

datatype check = CheckFn "pref \<Rightarrow> bool" | CheckPlr pref

definition proceed :: "check option \<Rightarrow> pref \<Rightarrow> bool" where
  "proceed chk plr =
     (case chk of None \<Rightarrow> True | Some (CheckFn f) \<Rightarrow> f plr | Some (CheckPlr q) \<Rightarrow> q \<noteq> plr)"

fun broadcast_loop :: "pref list \<Rightarrow> string \<Rightarrow> jsval \<Rightarrow> check option \<Rightarrow> master \<Rightarrow> master" where
  "broadcast_loop [] type data chk s = s"
| "broadcast_loop (plr # rest) type data chk s =
     broadcast_loop rest type data chk
       (if proceed chk plr then send s plr type data None else s)"

definition broadcast :: "master \<Rightarrow> string \<Rightarrow> jsval \<Rightarrow> check option \<Rightarrow> master" where
  "broadcast s type data chk = broadcast_loop (players s) type data chk s"

definition pushStatusUpdate :: "master \<Rightarrow> pref \<Rightarrow> master" where
  "pushStatusUpdate s exPlr =
     broadcast s ''Status-Update''
       (Obj [(''status'', status (objs s exPlr)), (''id'', Str (dbRef (objs s exPlr)))])
       (Some (CheckPlr exPlr))"

subsection \<open>tryRespawn\<close>

definition tryRespawn ::
  "master \<Rightarrow> pref \<Rightarrow> jsval \<Rightarrow> string \<Rightarrow> jsval \<Rightarrow> master \<times> bool" where
  "tryRespawn s p nm eref queue =
     (case stalePlayers s eref of
        None \<Rightarrow> (s, False)
      | Some respPlr \<Rightarrow>
          (let s1 = s\<lparr>stalePlayers := (stalePlayers s)(eref := None)\<rparr>;
               s2 = switchState s1 respPlr (sock (objs s1 p));
               s3 = postAuth s2 respPlr nm eref queue (Some True);
               s4 = s3\<lparr>objs := (objs s3)(respPlr := (objs s3 respPlr)\<lparr>idP := idP (objs s3 p)\<rparr>)\<rparr>;
               s5 = switchState s4 p None;
               s6 = s5\<lparr>objs := (objs s5)(p := (objs s5 p)\<lparr>idP := - 1\<rparr>)\<rparr>
           in (s6, True)))"

text \<open>
  Both login paths authenticate with the same two lines:
  \<^verbatim>\<open>if (!this.tryRespawn(plr, name, ref, data.queue)) plr.postAuth(name, ref, data.queue)\<close>.
\<close>

definition authenticate :: "master \<Rightarrow> pref \<Rightarrow> jsval \<Rightarrow> string \<Rightarrow> jsval \<Rightarrow> master" where
  "authenticate s plr nm ref queue =
     (case tryRespawn s plr nm ref queue of
        (s', respawned) \<Rightarrow> if \<not> respawned then postAuth s' plr nm ref queue None else s')"

subsection \<open>randomizeAccess\<close>

text \<open>
  \<^verbatim>\<open>parseInt(`${Math.random() * (999999 - 100000) + 100000}`)\<close>: the number is at least
  100000 and below 999999, its decimal notation has no exponent, and \<^verbatim>\<open>parseInt\<close> keeps
  the digits in front of the decimal point, so the code is the integer part.
\<close>

definition randomizeAccess :: "env \<Rightarrow> master \<Rightarrow> master" where
  "randomizeAccess e s =
     (let code = \<lfloor>random e * (999999 - 100000) + 100000\<rfloor>
      in dbSet s WRITE ''regAccessCode'' (Num (Fin (of_int code))))"

subsection \<open>handleMSG\<close>

text \<open>
  The embedded expiry of a session value: \<^verbatim>\<open>parseInt(session.split('|')[1])\<close>. A missing
  second piece is \<^verbatim>\<open>undefined\<close>, which \<^verbatim>\<open>parseInt\<close> reads as NaN.
\<close>

definition expiry :: "string \<Rightarrow> int option" where
  "expiry session = (case split CHR ''|'' session of a # b # rest \<Rightarrow> parseInt b | _ \<Rightarrow> None)"

definition in_future :: "env \<Rightarrow> int option \<Rightarrow> bool" where
  "in_future e t = (case t of None \<Rightarrow> False | Some n \<Rightarrow> n > now e)"

text \<open>Login with a session token: the block of lines 119 to 135.\<close>

definition login_session :: "env \<Rightarrow> master \<Rightarrow> pref \<Rightarrow> jsval \<Rightarrow> error + master" where
  "login_session e s plr data =
     (let qryData = dbGet s ''users'' (Str ''session'') (field data ''sess'');
          expired = Inr (send s plr ''Warn'' (Str ''Session expired! login again'') (Some True))
      in if truthy qryData then
           (case children qryData of
              [] \<Rightarrow> Inl TypeError
            | (dref, userDObj) # others \<Rightarrow>
                (case field userDObj ''session'' of
                   Str session \<Rightarrow>
                     if in_future e (expiry session) then
                       (if \<not> truthy (field userDObj ''isBlocked'')
                        then Inr (authenticate s plr (field userDObj ''name'') dref
                                    (field data ''queue''))
                        else Inr (send s plr ''Warn'' (Str ''Your are blocked by admin'')
                                    (Some True)))
                     else expired
                 | _ \<Rightarrow> Inl TypeError))
         else expired)"

text \<open>Login with a password: the block of lines 138 to 157.\<close>

definition emDbRefLog :: "env \<Rightarrow> jsval \<Rightarrow> string" where
  "emDbRefLog e data =
     (case field data ''email'' of
        Str email \<Rightarrow> hash e (Str (toLowerCase email)) (Some ''md5'')
      | _ \<Rightarrow> ''null'')"

definition login_password :: "env \<Rightarrow> master \<Rightarrow> pref \<Rightarrow> jsval \<Rightarrow> error + master" where
  "login_password e s plr data =
     (let userDet = dbGet s (''users/'' @ emDbRefLog e data) Undefined Undefined
      in if userDet \<noteq> Null then
           (if strict_eq (field userDet ''pass'') (Str (hash e (field data ''pass'') None))
            then (if \<not> truthy (field userDet ''isBlocked'')
                  then Inr (authenticate s plr (field userDet ''name'') (emDbRefLog e data)
                              (field data ''queue''))
                  else Inr (send s plr ''Warn'' (Str ''Your are blocked by admin'') (Some True)))
            else Inr (send s plr ''Error'' (Str ''Oh! It's wrong login password.'') (Some True)))
         else Inr (send s plr ''Error'' (Str ''Please register first to continue'')
                     (Some True)))"

text \<open>
  Register once the access code has been accepted: lines 162 to 207. \<open>str_of\<close> reads a
  value already known to be a string.
\<close>

fun str_of :: "jsval \<Rightarrow> string" where
  "str_of (Str s) = s"
| "str_of v = []"

definition register_fields ::
  "env \<Rightarrow> master \<Rightarrow> pref \<Rightarrow> jsval \<Rightarrow> jsval \<Rightarrow> jsval \<Rightarrow> master" where
  "register_fields e s plr dname demail dpass =
     (if \<not> truthy dname \<or> \<not> truthy demail \<or> \<not> truthy dpass \<or> \<not> is_string dname
         \<or> \<not> is_string demail \<or> \<not> is_string dpass then
        send s plr ''Error'' (Str ''Invalid or Malformed request.'') (Some True)
      else if length (str_of dname) < 4 then
        send s plr ''Error''
          (Str ''Name is too short, it should be at least 4 characters long.'') (Some True)
      else if length (str_of dname) > 20 then
        send s plr ''Error''
          (Str ''Name is too long, it must not exceed 20 characters.'') (Some True)
      else if \<not> isValidPassword e (str_of dpass) then
        send s plr ''Error''
          (Str ''Password should be alphanumeric, with at least 8 characters, including special characters.'')
          (Some True)
      else if \<not> truthy demail \<or> \<not> isValidEmail e (str_of demail) then
        send s plr ''Error''
          (Str ''This email doesn't looks like a valid one, try again.'') (Some True)
      else
        (let nm = trim (str_of dname);
             email = toLowerCase (trim (str_of demail));
             emDbRefSig = hash e (Str email) (Some ''md5'')
         in if dbGet s (''users/'' @ emDbRefSig) Undefined Undefined \<noteq> Null then
              send s plr ''Error'' (Str ''User already exists! Please login to continue.'')
                (Some True)
            else
              (let s1 = dbSet s WRITE (''users/'' @ emDbRefSig)
                          (Obj [(''pass'', Str (hash e dpass None)),
                                (''email'', Str email),
                                (''name'', Str nm),
                                (''isBlocked'', Bool False)]);
                   s2 = randomizeAccess e s1
               in postAuth s2 plr (Str nm) emDbRefSig Undefined None)))"

text \<open>
  The handler. A message is its \<^verbatim>\<open>type\<close> and its \<^verbatim>\<open>data\<close>; reading a property of a
  \<^verbatim>\<open>data\<close> that is \<^verbatim>\<open>null\<close> or \<^verbatim>\<open>undefined\<close> throws.
\<close>

definition handleMSG :: "env \<Rightarrow> master \<Rightarrow> pref \<Rightarrow> jsval \<times> jsval \<Rightarrow> error + master" where
  "handleMSG e s plr msg =
     (case msg of (type, data) \<Rightarrow>
        if type = Str ''Login'' then
          (if \<not> readable data then Inl TypeError
           else if truthy (field data ''sess'') \<and> is_string (field data ''sess'')
           then login_session e s plr data
           else login_password e s plr data)
        else if type = Str ''Register'' then
          (if \<not> readable data then Inl TypeError
           else if loose_eq (dbGet s ''regAccessCode'' Undefined Undefined) (field data ''access'')
           then Inr (register_fields e s plr (field data ''name'') (field data ''email'')
                       (field data ''pass''))
           else Inr (send s plr ''Error'' (Str ''Access code is invalid!'') (Some True)))
        else if type = Str ''Logout'' then
          Inr (fireDisconnection
                 (dbSet s UPDATE (''users/'' @ dbRef (objs s plr))
                    (Obj [(''session'', Str ''null|0'')]))
                 plr True)
        else if type = Str ''Search'' then
          (if \<not> readable data then Inl TypeError
           else (let s1 = s\<lparr>trace := trace s
                            @ [AddFinder plr (field data ''gameId'') (field data ''plrCount'')]\<rparr>
                 in if addFinder e plr (field data ''gameId'') (field data ''plrCount'')
                    then Inr (send s1 plr ''Goto-Lobby'' Undefined None)
                    else Inr (send s1 plr ''Lobby-Cancel'' Undefined None)))
        else if type = Str ''Cancel-Search'' then
          (let s1 = send s plr ''Search-Cancelled'' Undefined None
           in Inr (s1\<lparr>trace := trace s1 @ [RemoveFinder plr]\<rparr>))
        else Inr (send s plr ''Error'' (Str ''Invalid request!'') None))"

section \<open>Sample inputs\<close>

text \<open>
  A clock, a random draw and stand-ins for the functions of \<^verbatim>\<open>Utility\<close> and \<^verbatim>\<open>Lobby\<close>,
  and a small store and registry, on which the handlers are evaluated below.
\<close>

definition hash0 :: "jsval \<Rightarrow> string option \<Rightarrow> string" where
  "hash0 v alg = (case alg of None \<Rightarrow> ''sha-'' | Some a \<Rightarrow> a @ ''-'') @ str_of v"

definition env0 :: env where
  "env0 = \<lparr>now = 1000, random = 1 / 2, hash = hash0,
            isValidPassword = (\<lambda>pw. 8 \<le> length pw),
            isValidEmail = (\<lambda>em. CHR ''@'' \<in> set em),
            addFinder = (\<lambda>p g c. True)\<rparr>"

definition alice_doc :: jsval where
  "alice_doc = Obj [(''pass'', Str ''sha-Secret#1''), (''email'', Str ''a@b.com''),
                    (''name'', Str ''Alice''), (''isBlocked'', Bool False),
                    (''session'', Str ''tok|2000'')]"

definition db0 :: jsval where
  "db0 = Obj [(''regAccessCode'', Num (Fin 549999)),
              (''users'', Obj [(''md5-a@b.com'', alice_doc)])]"

definition fresh_player :: Player where
  "fresh_player = \<lparr>sock = None, idP = 0, dbRef = [], status = Undefined\<rparr>"

text \<open>Player 0 is connected and not authenticated; nobody is stale.\<close>

definition s0 :: master where
  "s0 = \<lparr>db = db0,
          objs = (\<lambda>r. fresh_player)(0 := \<lparr>sock = Some 10, idP = 7, dbRef = [], status = Undefined\<rparr>),
          stalePlayers = Map.empty,
          players = [0],
          pIds = 8,
          trace = []\<rparr>"

text \<open>As \<open>s0\<close>, with player 1 stale under Alice's key.\<close>

definition s1 :: master where
  "s1 = s0\<lparr>objs := (objs s0)(1 := \<lparr>sock = None, idP = 3, dbRef = ''md5-a@b.com'',
                                     status = Undefined\<rparr>),
            stalePlayers := [''md5-a@b.com'' \<mapsto> 1]\<rparr>"

text \<open>As \<open>s0\<close>, with player 0 authenticated as Alice.\<close>

definition s2 :: master where
  "s2 = s0\<lparr>objs := (objs s0)(0 := \<lparr>sock = Some 10, idP = 7, dbRef = ''md5-a@b.com'',
                                     status = Undefined\<rparr>)\<rparr>"

text \<open>As \<open>s2\<close>, after the disconnection of player 0 has been handled: Alice is stale.\<close>

definition s3 :: master where
  "s3 = fireDisconnection s2 0 False"

section \<open>Properties of the store\<close>

lemma child_children:
  "child t k = (case map_of (children t) k of None \<Rightarrow> Null | Some v \<Rightarrow> v)"
  by (cases t) simp_all

lemma child_normalised:
  "child (if fs = [] then Null else Obj fs) k = (case map_of fs k of None \<Rightarrow> Null | Some v \<Rightarrow> v)"
  by simp

lemma child_put_child_same: "child (put_child t k v) k = v"
  unfolding put_child_def Let_def child_normalised
  by (simp add: AList.update_conv' AList.delete_conv')

lemma child_put_child_other: "k' \<noteq> k \<Longrightarrow> child (put_child t k v) k' = child t k'"
  unfolding put_child_def Let_def child_normalised
  by (simp add: AList.update_conv' AList.delete_conv' child_children)

text \<open>A write at a path is read back there, and leaves the siblings of the last segment alone.\<close>

lemma node_at_tree_set_same: "node_at (tree_set t ps v) ps = v"
  by (induction ps arbitrary: t) (simp_all add: child_put_child_same)

lemma node_at_tree_set_sibling:
  "a \<noteq> b \<Longrightarrow> node_at (tree_set t (ps @ [a]) v) (ps @ [b]) = node_at t (ps @ [b])"
  by (induction ps arbitrary: t) (simp_all add: child_put_child_same child_put_child_other)

lemma tree_update_single: "tree_update t ps (Obj [(k, v)]) = tree_set t (ps @ [k]) v"
  by (simp add: tree_update_def)

lemma split_path_users: "split_path (''users/'' @ key) = ''users'' # split_path key"
  by (simp add: split_path_def)

lemma split_path_regAccessCode: "split_path ''regAccessCode'' = [''regAccessCode'']"
  by (simp add: split_path_def)

lemma node_at_tree_set_other_root:
  "a \<noteq> b \<Longrightarrow> node_at (tree_set t (a # as) v) (b # bs) = node_at t (b # bs)"
  by (simp add: child_put_child_other)

lemma db_dbSet_WRITE: "db (dbSet s WRITE path v) = tree_set (db s) (split_path path) v"
  by (simp add: dbSet_def)

lemma db_postAuth: "db (postAuth s plr nm ref queue r) = db s"
  by (simp add: postAuth_def)

section \<open>Respawn\<close>




text \<open>
  A player that was authenticated when its connection dropped is stale under its own
  reference, so the respawn that follows leaves its persistent reference as it was.
\<close>

lemma respawn_after_disconnect:
  assumes "dbRef (objs s q) \<noteq> []" and "q \<noteq> p"
  shows "let s1 = fireDisconnection s q False;
             r = tryRespawn s1 p nm (dbRef (objs s q)) queue
         in snd r
            \<and> dbRef (objs (fst r) q) = dbRef (objs s q)
            \<and> idP (objs (fst r) q) = idP (objs s p)
            \<and> sock (objs (fst r) q) = sock (objs s p)
            \<and> stalePlayers (fst r) (dbRef (objs s q)) = None"
  using assms
  by (cases "sock (objs s p)")
     (simp_all add: fireDisconnection_def tryRespawn_def Let_def switchState_def postAuth_def)

section \<open>Broadcast\<close>

lemma broadcast_loop_trace:
  "broadcast_loop ps T D chk s =
     s\<lparr>trace := trace s @ map (\<lambda>p. Send p T D None) (filter (proceed chk) ps)\<rparr>"
  by (induction ps arbitrary: s) (simp_all add: send_def)

text \<open>
  C3. \<open>broadcast\<close> changes nothing but the trace, to which it adds one send of the message
  per recipient, in the order of the active set. The recipients are all active players
  when the check is absent, the active players the function accepts when it is a function,
  and the active players other than \<open>q\<close> when it is the player \<open>q\<close>; when \<open>q\<close> is the only
  active player, nothing is sent.
\<close>

theorem broadcast_recipients:
  "broadcast s T D None = s\<lparr>trace := trace s @ map (\<lambda>p. Send p T D None) (players s)\<rparr>
   \<and> broadcast s T D (Some (CheckFn f))
       = s\<lparr>trace := trace s @ map (\<lambda>p. Send p T D None) (filter f (players s))\<rparr>
   \<and> broadcast s T D (Some (CheckPlr q))
       = s\<lparr>trace := trace s @ map (\<lambda>p. Send p T D None) (filter (\<lambda>p. p \<noteq> q) (players s))\<rparr>
   \<and> broadcast (s\<lparr>players := [q]\<rparr>) T D (Some (CheckPlr q)) = s\<lparr>players := [q]\<rparr>"
proof -
  have none: "filter (proceed None) (players s) = players s"
    by (simp add: proceed_def)
  have func: "filter (proceed (Some (CheckFn f))) (players s) = filter f (players s)"
    by (rule filter_cong) (auto simp: proceed_def)
  have plr: "\<And>ps. filter (proceed (Some (CheckPlr q))) ps = filter (\<lambda>p. p \<noteq> q) ps"
    by (rule filter_cong) (auto simp: proceed_def)
  show ?thesis
    by (simp add: broadcast_def broadcast_loop_trace none func plr proceed_def)
qed

theorem broadcast_recipients_witness:
  "trace (broadcast (s0\<lparr>players := [0, 1, 2]\<rparr>) ''Status-Update'' Null (Some (CheckPlr 1)))
     = [Send 0 ''Status-Update'' Null None, Send 2 ''Status-Update'' Null None]"
  using broadcast_recipients [of "s0\<lparr>players := [0, 1, 2]\<rparr>" "''Status-Update''" Null "\<lambda>p. True" 1]
  by (simp add: s0_def)

section \<open>Messages of an unknown type\<close>




section \<open>Logout\<close>

text \<open>
  C9. A \<^verbatim>\<open>Logout\<close> always completes. It first updates the node
  \<^verbatim>\<open>users/<dbRef>\<close> of the player with \<^verbatim>\<open>{session: "null|0"}\<close> and then fires the explicit
  disconnection, in this order. Afterwards the field \<^verbatim>\<open>session\<close> of that node is
  \<^verbatim>\<open>"null|0"\<close>, every other field of the node is what it was, and the stale registry is
  what it was.
\<close>

theorem logout_merges_then_disconnects:
  "\<exists>s'. handleMSG e s plr (Str ''Logout'', data) = Inr s'
     \<and> trace s' = trace s @ [DbSet UPDATE (''users/'' @ dbRef (objs s plr))
                                (Obj [(''session'', Str ''null|0'')]),
                              FireDisconnection plr True]
     \<and> node_at (db s') (split_path (''users/'' @ dbRef (objs s plr)) @ [''session''])
         = Str ''null|0''
     \<and> (\<forall>k. k \<noteq> ''session'' \<longrightarrow>
           node_at (db s') (split_path (''users/'' @ dbRef (objs s plr)) @ [k])
             = node_at (db s) (split_path (''users/'' @ dbRef (objs s plr)) @ [k]))
     \<and> stalePlayers s' = stalePlayers s"
  by (simp add: handleMSG_def fireDisconnection_def dbSet_def Let_def tree_update_single
      node_at_tree_set_same node_at_tree_set_sibling)

text \<open>In \<open>s2\<close> player 0 is Alice: her name survives her logout.\<close>

theorem logout_merges_then_disconnects_witness:
  "\<exists>s'. handleMSG env0 s2 0 (Str ''Logout'', Undefined) = Inr s'
     \<and> node_at (db s') [''users'', ''md5-a@b.com'', ''session''] = Str ''null|0''
     \<and> node_at (db s') [''users'', ''md5-a@b.com'', ''name''] = Str ''Alice''
     \<and> trace s' = [DbSet UPDATE ''users/md5-a@b.com'' (Obj [(''session'', Str ''null|0'')]),
                    FireDisconnection 0 True]"
proof -
  have p: "split_path (''users/'' @ dbRef (objs s2 0)) = [''users'', ''md5-a@b.com'']"
    by code_simp
  have n: "node_at (db s2) [''users'', ''md5-a@b.com'', ''name''] = Str ''Alice''"
    by code_simp
  have r: "dbRef (objs s2 0) = ''md5-a@b.com''" "trace s2 = []"
    by (simp_all add: s2_def s0_def)
  from logout_merges_then_disconnects [of env0 s2 0 Undefined]
  obtain s' where h: "handleMSG env0 s2 0 (Str ''Logout'', Undefined) = Inr s'"
     "trace s' = trace s2 @ [DbSet UPDATE (''users/'' @ dbRef (objs s2 0))
                                (Obj [(''session'', Str ''null|0'')]),
                              FireDisconnection 0 True]"
     "node_at (db s') (split_path (''users/'' @ dbRef (objs s2 0)) @ [''session''])
         = Str ''null|0''"
     "\<forall>k. k \<noteq> ''session'' \<longrightarrow>
           node_at (db s') (split_path (''users/'' @ dbRef (objs s2 0)) @ [k])
             = node_at (db s2) (split_path (''users/'' @ dbRef (objs s2 0)) @ [k])"
    by blast
  from h(4) have "node_at (db s') (split_path (''users/'' @ dbRef (objs s2 0)) @ [''name''])
             = node_at (db s2) (split_path (''users/'' @ dbRef (objs s2 0)) @ [''name''])"
    by simp
  with h(1,2,3) n show ?thesis
    unfolding p by (simp add: r)
qed

section \<open>The access code of Register\<close>

lemma register_fields_trace:
  "trace (register_fields e s plr a b c)
     \<noteq> trace s @ [Send plr ''Error'' (Str ''Access code is invalid!'') (Some True)]"
  by (simp add: register_fields_def Let_def send_def postAuth_def randomizeAccess_def dbSet_def)

lemma register_fields_not_invalid_access:
  "register_fields e s plr a b c
     \<noteq> send s plr ''Error'' (Str ''Access code is invalid!'') (Some True)"
proof
  assume "register_fields e s plr a b c
            = send s plr ''Error'' (Str ''Access code is invalid!'') (Some True)"
  then have "trace (register_fields e s plr a b c)
            = trace (send s plr ''Error'' (Str ''Access code is invalid!'') (Some True))"
    by simp
  then show False
    using register_fields_trace [of e s plr a b c] by (simp add: send_def)
qed

text \<open>
  C10. The access code is compared with \<^verbatim>\<open>==\<close>. When the store has nothing at
  \<^verbatim>\<open>regAccessCode\<close> and the payload's \<^verbatim>\<open>access\<close> is \<^verbatim>\<open>null\<close> or missing, and when the
  store has a number there and \<^verbatim>\<open>access\<close> is a string that denotes this number, the
  request goes on to the validation of its fields and is not answered with the
  invalid-access-code error.
\<close>

theorem access_gate_is_loose:
  assumes "readable data"
    and "(dbGet s ''regAccessCode'' Undefined Undefined = Null \<and> nullish (field data ''access''))
         \<or> (\<exists>n t. dbGet s ''regAccessCode'' Undefined Undefined = Num (Fin n)
                  \<and> field data ''access'' = Str t \<and> StringToNumber t = Fin n)"
  shows "handleMSG e s plr (Str ''Register'', data)
           = Inr (register_fields e s plr (field data ''name'') (field data ''email'')
                    (field data ''pass''))
         \<and> handleMSG e s plr (Str ''Register'', data)
           \<noteq> Inr (send s plr ''Error'' (Str ''Access code is invalid!'') (Some True))"
proof -
  have gate: "loose_eq (dbGet s ''regAccessCode'' Undefined Undefined) (field data ''access'')"
    using assms(2) by (auto simp: loose_eq_def)
  then have "handleMSG e s plr (Str ''Register'', data)
           = Inr (register_fields e s plr (field data ''name'') (field data ''email'')
                    (field data ''pass''))"
    using assms(1) by (simp add: handleMSG_def)
  then show ?thesis
    by (simp add: register_fields_not_invalid_access)
qed

text \<open>
  An empty store and an empty payload; and the code 549999 of \<open>db0\<close>, presented as the
  string \<^verbatim>\<open>"549999"\<close>. Both requests are answered by the validation of the fields.
\<close>

theorem access_gate_is_loose_witness:
  "handleMSG env0 (s0\<lparr>db := Obj []\<rparr>) 0 (Str ''Register'', Obj [])
     = Inr (send (s0\<lparr>db := Obj []\<rparr>) 0 ''Error'' (Str ''Invalid or Malformed request.'') (Some True))
   \<and> handleMSG env0 s0 0 (Str ''Register'', Obj [(''access'', Str ''549999'')])
     = Inr (send s0 0 ''Error'' (Str ''Invalid or Malformed request.'') (Some True))"
proof -
  have a: "dbGet (s0\<lparr>db := Obj []\<rparr>) ''regAccessCode'' Undefined Undefined = Null"
    by code_simp
  have b: "dbGet s0 ''regAccessCode'' Undefined Undefined = Num (Fin 549999)"
    by code_simp
  have c: "StringToNumber ''549999'' = Fin 549999"
    by code_simp
  have "handleMSG env0 (s0\<lparr>db := Obj []\<rparr>) 0 (Str ''Register'', Obj [])
     = Inr (register_fields env0 (s0\<lparr>db := Obj []\<rparr>) 0 (field (Obj []) ''name'')
             (field (Obj []) ''email'') (field (Obj []) ''pass''))"
    using access_gate_is_loose [of "Obj []" "s0\<lparr>db := Obj []\<rparr>" env0 0] a by simp
  moreover have "handleMSG env0 s0 0 (Str ''Register'', Obj [(''access'', Str ''549999'')])
     = Inr (register_fields env0 s0 0 (field (Obj [(''access'', Str ''549999'')]) ''name'')
             (field (Obj [(''access'', Str ''549999'')]) ''email'')
             (field (Obj [(''access'', Str ''549999'')]) ''pass''))"
    using access_gate_is_loose [of "Obj [(''access'', Str ''549999'')]" s0 env0 0] b c by simp
  ultimately show ?thesis
    by (simp add: register_fields_def)
qed

section \<open>Login with a session token\<close>

lemma child_Str_field: "child doc k = Str t \<Longrightarrow> field doc k = Str t"
  by (cases doc) (auto split: option.splits)

lemma equalTo_head:
  assumes "children (equalTo node (Str k) v) = (dref, doc) # others"
  shows "child doc k = v"
proof -
  have "(dref, doc) \<in> set (filter (\<lambda>(key, d). child d k = v) (children node))"
    using assms by (simp add: equalTo_def)
  then show ?thesis by simp
qed

lemma session_query:
  assumes "t \<noteq> []"
  shows "dbGet s ''users'' (Str ''session'') (Str t) = Null
         \<or> (\<exists>dref doc others.
              dbGet s ''users'' (Str ''session'') (Str t) = Obj ((dref, doc) # others)
              \<and> field doc ''session'' = Str t)"
proof (cases "snap_exists (equalTo (node_at (db s) (split_path ''users'')) (Str ''session'') (Str t))")
  case False
  then show ?thesis using assms by (simp add: dbGet_def Let_def)
next
  case True
  let ?q = "equalTo (node_at (db s) (split_path ''users'')) (Str ''session'') (Str t)"
  have q: "dbGet s ''users'' (Str ''session'') (Str t) = ?q"
    using True assms by (simp add: dbGet_def Let_def)
  obtain fs where fs: "?q = Obj fs"
    by (simp add: equalTo_def)
  with True have "fs \<noteq> []" by (simp add: snap_exists_def)
  then obtain dref doc others where c: "fs = (dref, doc) # others"
    by (cases fs) auto
  with fs have "children ?q = (dref, doc) # others" by simp
  then have "child doc ''session'' = Str t" by (rule equalTo_head)
  then have "field doc ''session'' = Str t" by (rule child_Str_field)
  with q fs c show ?thesis by simp
qed

lemma login_session_expired:
  assumes "field data ''sess'' = Str t" and "t \<noteq> []"
    and "dbGet s ''users'' (Str ''session'') (Str t) = Null \<or> \<not> in_future e (expiry t)"
  shows "login_session e s plr data
           = Inr (send s plr ''Warn'' (Str ''Session expired! login again'') (Some True))"
  using session_query [OF assms(2), of s] assms
  by (auto simp: login_session_def Let_def)

lemma login_session_returns:
  assumes "field data ''sess'' = Str t" and "t \<noteq> []"
  shows "\<exists>s'. login_session e s plr data = Inr s'"
  using session_query [OF assms(2), of s] assms
  by (auto simp: login_session_def Let_def)

lemma login_session_fields:
  assumes "field data' ''sess'' = field data ''sess''"
    and "field data' ''queue'' = field data ''queue''"
  shows "login_session e s plr data' = login_session e s plr data"
  unfolding login_session_def assms by (rule refl)

lemma field_readable: "field data k = Str t \<Longrightarrow> readable data"
  by (cases data) simp_all

text \<open>
  C6. A login whose payload supplies a session token (a non-empty string \<^verbatim>\<open>sess\<close>)
  always completes, and what it does depends on the payload only through \<^verbatim>\<open>sess\<close> and
  \<^verbatim>\<open>queue\<close>: the e-mail address and the password are never consulted. When the query finds no
  document with this session value, or the expiry embedded in the token is not in the
  future, the handler sends one terminal warning, \<^verbatim>\<open>Session expired! login again\<close>, and
  changes nothing else.
\<close>

theorem session_login_never_falls_back:
  assumes "field data ''sess'' = Str t" and "t \<noteq> []"
  shows "(dbGet s ''users'' (Str ''session'') (Str t) = Null \<or> \<not> in_future e (expiry t) \<longrightarrow>
            handleMSG e s plr (Str ''Login'', data)
              = Inr (s\<lparr>trace := trace s @ [Send plr ''Warn'' (Str ''Session expired! login again'')
                                            (Some True)]\<rparr>))
         \<and> (\<exists>s'. handleMSG e s plr (Str ''Login'', data) = Inr s')
         \<and> (\<forall>data'. field data' ''sess'' = Str t \<and> field data' ''queue'' = field data ''queue'' \<longrightarrow>
               handleMSG e s plr (Str ''Login'', data') = handleMSG e s plr (Str ''Login'', data))"
proof -
  have h: "\<And>d. field d ''sess'' = Str t \<Longrightarrow>
             handleMSG e s plr (Str ''Login'', d) = login_session e s plr d"
    using assms(2) by (simp add: handleMSG_def field_readable)
  show ?thesis
  proof (intro conjI impI allI)
    assume "dbGet s ''users'' (Str ''session'') (Str t) = Null \<or> \<not> in_future e (expiry t)"
    then show "handleMSG e s plr (Str ''Login'', data)
              = Inr (s\<lparr>trace := trace s @ [Send plr ''Warn'' (Str ''Session expired! login again'')
                                            (Some True)]\<rparr>)"
      using login_session_expired [OF assms, of s e plr] h [OF assms(1)]
      by (simp add: send_def)
  next
    show "\<exists>s'. handleMSG e s plr (Str ''Login'', data) = Inr s'"
      using login_session_returns [OF assms, of e s plr] h [OF assms(1)] by simp
  next
    fix data'
    assume d: "field data' ''sess'' = Str t \<and> field data' ''queue'' = field data ''queue''"
    then have "login_session e s plr data' = login_session e s plr data"
      using assms(1) by (intro login_session_fields) simp_all
    then show "handleMSG e s plr (Str ''Login'', data') = handleMSG e s plr (Str ''Login'', data)"
      using h [OF assms(1)] h [of data'] d by simp
  qed
qed

text \<open>
  A token that no document holds, and Alice's token after its expiry; both payloads carry
  Alice's right e-mail address and password, which are not used.
\<close>

theorem session_login_never_falls_back_witness:
  "handleMSG env0 s0 0
     (Str ''Login'', Obj [(''sess'', Str ''nope|9999''), (''email'', Str ''a@b.com''),
                          (''pass'', Str ''Secret#1'')])
     = Inr (s0\<lparr>trace := [Send 0 ''Warn'' (Str ''Session expired! login again'') (Some True)]\<rparr>)
   \<and> handleMSG (env0\<lparr>now := 5000\<rparr>) s0 0
     (Str ''Login'', Obj [(''sess'', Str ''tok|2000''), (''email'', Str ''a@b.com''),
                          (''pass'', Str ''Secret#1'')])
     = Inr (s0\<lparr>trace := [Send 0 ''Warn'' (Str ''Session expired! login again'') (Some True)]\<rparr>)"
proof -
  have t: "trace s0 = []" by (simp add: s0_def)
  have a: "dbGet s0 ''users'' (Str ''session'') (Str ''nope|9999'') = Null"
    by code_simp
  have b: "\<not> in_future (env0\<lparr>now := 5000\<rparr>) (expiry ''tok|2000'')"
    by code_simp
  show ?thesis
    using session_login_never_falls_back
            [of "Obj [(''sess'', Str ''nope|9999''), (''email'', Str ''a@b.com''),
                      (''pass'', Str ''Secret#1'')]" "''nope|9999''" s0 env0 0]
          session_login_never_falls_back
            [of "Obj [(''sess'', Str ''tok|2000''), (''email'', Str ''a@b.com''),
                      (''pass'', Str ''Secret#1'')]" "''tok|2000''" s0 "env0\<lparr>now := 5000\<rparr>" 0]
          a b
    by (simp add: t)
qed

section \<open>Login with a password\<close>

lemma login_password_path:
  assumes "readable data"
    and "\<not> (truthy (field data ''sess'') \<and> is_string (field data ''sess''))"
  shows "handleMSG e s plr (Str ''Login'', data) = login_password e s plr data"
  using assms by (auto simp: handleMSG_def)

text \<open>
  C7. A login that supplies no session token looks up \<^verbatim>\<open>users/<key>\<close>, where the key is the
  md5 hash of the lower-cased e-mail address (\<open>userDet\<close> is what the lookup returns). If a
  document is there and its \<^verbatim>\<open>pass\<close> is not the hash of the supplied password, the handler
  sends one terminal error naming the wrong password; if the hashes match and the account
  is blocked, one terminal warning; if they match and it is not blocked, the player is
  authenticated, by respawn or afresh; if no document is there, one terminal error asking
  to register first. In the three failure cases nothing but the trace changes: the
  connection, the active set, the stale registry and the store are as before.
\<close>

theorem password_login_outcomes:
  assumes "readable data"
    and "\<not> (truthy (field data ''sess'') \<and> is_string (field data ''sess''))"
    and "userDet = dbGet s (''users/'' @ emDbRefLog e data) Undefined Undefined"
  shows "(\<forall>email. field data ''email'' = Str email \<longrightarrow>
            emDbRefLog e data = hash e (Str (toLowerCase email)) (Some ''md5''))
       \<and> (userDet \<noteq> Null
            \<and> \<not> strict_eq (field userDet ''pass'') (Str (hash e (field data ''pass'') None)) \<longrightarrow>
          handleMSG e s plr (Str ''Login'', data)
            = Inr (s\<lparr>trace := trace s @ [Send plr ''Error'' (Str ''Oh! It's wrong login password.'')
                                          (Some True)]\<rparr>))
       \<and> (userDet \<noteq> Null
            \<and> strict_eq (field userDet ''pass'') (Str (hash e (field data ''pass'') None))
            \<and> truthy (field userDet ''isBlocked'') \<longrightarrow>
          handleMSG e s plr (Str ''Login'', data)
            = Inr (s\<lparr>trace := trace s @ [Send plr ''Warn'' (Str ''Your are blocked by admin'')
                                          (Some True)]\<rparr>))
       \<and> (userDet \<noteq> Null
            \<and> strict_eq (field userDet ''pass'') (Str (hash e (field data ''pass'') None))
            \<and> \<not> truthy (field userDet ''isBlocked'') \<longrightarrow>
          handleMSG e s plr (Str ''Login'', data)
            = Inr (authenticate s plr (field userDet ''name'') (emDbRefLog e data)
                     (field data ''queue'')))
       \<and> (userDet = Null \<longrightarrow>
          handleMSG e s plr (Str ''Login'', data)
            = Inr (s\<lparr>trace := trace s @ [Send plr ''Error''
                                           (Str ''Please register first to continue'')
                                           (Some True)]\<rparr>))"
  unfolding login_password_path [OF assms(1,2)] assms(3)
  by (simp add: login_password_def emDbRefLog_def send_def Let_def)

text \<open>A wrong password for Alice, her right password, and an unknown address.\<close>

theorem password_login_outcomes_witness:
  "handleMSG env0 s0 0 (Str ''Login'', Obj [(''email'', Str ''A@B.com''), (''pass'', Str ''guess'')])
     = Inr (s0\<lparr>trace := [Send 0 ''Error'' (Str ''Oh! It's wrong login password.'') (Some True)]\<rparr>)
   \<and> handleMSG env0 s0 0
       (Str ''Login'', Obj [(''email'', Str ''A@B.com''), (''pass'', Str ''Secret#1'')])
     = Inr (postAuth s0 0 (Str ''Alice'') ''md5-a@b.com'' Undefined None)
   \<and> handleMSG env0 s0 0 (Str ''Login'', Obj [(''email'', Str ''x@y.z''), (''pass'', Str ''guess'')])
     = Inr (s0\<lparr>trace := [Send 0 ''Error'' (Str ''Please register first to continue'')
                            (Some True)]\<rparr>)"
proof -
  let ?wrong = "Obj [(''email'', Str ''A@B.com''), (''pass'', Str ''guess'')]"
  let ?right = "Obj [(''email'', Str ''A@B.com''), (''pass'', Str ''Secret#1'')]"
  let ?nobody = "Obj [(''email'', Str ''x@y.z''), (''pass'', Str ''guess'')]"
  have t: "trace s0 = []" "stalePlayers s0 ''md5-a@b.com'' = None"
    by (simp_all add: s0_def)
  have k: "emDbRefLog env0 ?wrong = ''md5-a@b.com''" "emDbRefLog env0 ?right = ''md5-a@b.com''"
    by code_simp+
  have u: "alice_doc = dbGet s0 (''users/'' @ emDbRefLog env0 ?wrong) Undefined Undefined"
    "alice_doc = dbGet s0 (''users/'' @ emDbRefLog env0 ?right) Undefined Undefined"
    "Null = dbGet s0 (''users/'' @ emDbRefLog env0 ?nobody) Undefined Undefined"
    by code_simp+
  have w: "alice_doc \<noteq> Null"
    "\<not> strict_eq (field alice_doc ''pass'') (Str (hash env0 (field ?wrong ''pass'') None))"
    "strict_eq (field alice_doc ''pass'') (Str (hash env0 (field ?right ''pass'') None))"
    "\<not> truthy (field alice_doc ''isBlocked'')"
    "field alice_doc ''name'' = Str ''Alice''"
    by code_simp+
  have "handleMSG env0 s0 0 (Str ''Login'', ?wrong)
     = Inr (s0\<lparr>trace := [Send 0 ''Error'' (Str ''Oh! It's wrong login password.'') (Some True)]\<rparr>)"
    using password_login_outcomes [of ?wrong alice_doc s0 env0 0, OF _ _ u(1)] w(1,2)
    by (simp add: t)
  moreover have "handleMSG env0 s0 0 (Str ''Login'', ?right)
     = Inr (postAuth s0 0 (Str ''Alice'') ''md5-a@b.com'' Undefined None)"
    using password_login_outcomes [of ?right alice_doc s0 env0 0, OF _ _ u(2)] w(1,3,4,5) k(2)
    by (simp add: authenticate_def tryRespawn_def t)
  moreover have "handleMSG env0 s0 0 (Str ''Login'', ?nobody)
     = Inr (s0\<lparr>trace := [Send 0 ''Error'' (Str ''Please register first to continue'')
                            (Some True)]\<rparr>)"
    using password_login_outcomes [of ?nobody Null s0 env0 0, OF _ _ u(3)]
    by (simp add: t)
  ultimately show ?thesis by simp
qed

section \<open>Register\<close>

text \<open>
  A request that passes the access code and the checks of its fields, and whose key is
  free, writes the new document, rotates the access code and authenticates the player. The
  name and the address are trimmed after they have been checked.
\<close>

lemma register_accepted:
  assumes "readable data"
    and "loose_eq (dbGet s ''regAccessCode'' Undefined Undefined) (field data ''access'')"
    and "field data ''name'' = Str nm" and "field data ''email'' = Str email"
    and "field data ''pass'' = Str pass"
    and "email \<noteq> []" and "pass \<noteq> []"
    and "4 \<le> length nm" and "length nm \<le> 20"
    and "isValidPassword e pass" and "isValidEmail e email"
    and "key = hash e (Str (toLowerCase (trim email))) (Some ''md5'')"
    and "dbGet s (''users/'' @ key) Undefined Undefined = Null"
  shows "handleMSG e s plr (Str ''Register'', data)
           = Inr (postAuth
                    (randomizeAccess e
                       (dbSet s WRITE (''users/'' @ key)
                          (Obj [(''pass'', Str (hash e (Str pass) None)),
                                (''email'', Str (toLowerCase (trim email))),
                                (''name'', Str (trim nm)),
                                (''isBlocked'', Bool False)])))
                    plr (Str (trim nm)) key Undefined None)"
proof -
  have "nm \<noteq> []" using assms(8) by auto
  then show ?thesis
    using assms by (simp add: handleMSG_def register_fields_def Let_def)
qed

lemma randomizeAccess_range:
  assumes "0 \<le> random e" and "random e < 1"
  shows "\<exists>c. randomizeAccess e s = dbSet s WRITE ''regAccessCode'' (Num (Fin (of_int c)))
             \<and> 100000 \<le> c \<and> c \<le> 999998"
proof -
  let ?x = "random e * (999999 - 100000) + 100000"
  have lo: "100000 \<le> ?x" using assms(1) by simp
  have hi: "?x < 999999" using assms(2) by simp
  have "100000 \<le> \<lfloor>?x\<rfloor>" using lo by (simp add: le_floor_iff)
  moreover have "\<lfloor>?x\<rfloor> < 999999" using hi by (simp add: floor_less_iff)
  ultimately show ?thesis
    by (intro exI [of _ "\<lfloor>?x\<rfloor>"]) (simp add: randomizeAccess_def Let_def)
qed

text \<open>
  After an accepted request the store holds the new document under the key of the
  address, and an access code between 100000 and 999998.
\<close>

lemma register_stores_and_rotates:
  assumes "readable data"
    and "loose_eq (dbGet s ''regAccessCode'' Undefined Undefined) (field data ''access'')"
    and "field data ''name'' = Str nm" and "field data ''email'' = Str email"
    and "field data ''pass'' = Str pass"
    and "email \<noteq> []" and "pass \<noteq> []"
    and "4 \<le> length nm" and "length nm \<le> 20"
    and "isValidPassword e pass" and "isValidEmail e email"
    and "key = hash e (Str (toLowerCase (trim email))) (Some ''md5'')"
    and "dbGet s (''users/'' @ key) Undefined Undefined = Null"
    and "0 \<le> random e" and "random e < 1"
  shows "\<exists>s' c. handleMSG e s plr (Str ''Register'', data) = Inr s'
           \<and> node_at (db s') (split_path (''users/'' @ key))
               = Obj [(''pass'', Str (hash e (Str pass) None)),
                      (''email'', Str (toLowerCase (trim email))),
                      (''name'', Str (trim nm)),
                      (''isBlocked'', Bool False)]
           \<and> node_at (db s') [''regAccessCode''] = Num (Fin (of_int c))
           \<and> 100000 \<le> c \<and> c \<le> 999998"
proof -
  let ?doc = "Obj [(''pass'', Str (hash e (Str pass) None)),
                   (''email'', Str (toLowerCase (trim email))),
                   (''name'', Str (trim nm)),
                   (''isBlocked'', Bool False)]"
  let ?s1 = "dbSet s WRITE (''users/'' @ key) ?doc"
  obtain c where c: "randomizeAccess e ?s1 = dbSet ?s1 WRITE ''regAccessCode'' (Num (Fin (of_int c)))"
    "100000 \<le> c" "c \<le> 999998"
    using randomizeAccess_range [OF assms(14,15), of ?s1] by blast
  have h: "handleMSG e s plr (Str ''Register'', data)
             = Inr (postAuth (randomizeAccess e ?s1) plr (Str (trim nm)) key Undefined None)"
    by (rule register_accepted [OF assms(1-13)])
  have d: "db (postAuth (randomizeAccess e ?s1) plr (Str (trim nm)) key Undefined None)
             = tree_set (tree_set (db s) (''users'' # split_path key) ?doc)
                 [''regAccessCode''] (Num (Fin (of_int c)))"
    by (simp only: db_postAuth c(1) db_dbSet_WRITE split_path_users split_path_regAccessCode)
  have "node_at (tree_set (tree_set (db s) (''users'' # split_path key) ?doc)
                 [''regAccessCode''] (Num (Fin (of_int c)))) (''users'' # split_path key)
          = node_at (tree_set (db s) (''users'' # split_path key) ?doc) (''users'' # split_path key)"
    by (rule node_at_tree_set_other_root) simp
  also have "\<dots> = ?doc"
    by (rule node_at_tree_set_same)
  finally have "node_at (tree_set (tree_set (db s) (''users'' # split_path key) ?doc)
                 [''regAccessCode''] (Num (Fin (of_int c)))) (''users'' # split_path key) = ?doc" .
  moreover have "node_at (tree_set (tree_set (db s) (''users'' # split_path key) ?doc)
                 [''regAccessCode''] (Num (Fin (of_int c)))) [''regAccessCode'']
                   = Num (Fin (of_int c))"
    by (rule node_at_tree_set_same)
  ultimately show ?thesis
    using h d c(2,3) by (simp only: split_path_users) simp
qed

text \<open>
  C5. The length of the name is checked before the name is trimmed. On the sample store a
  request with the name \<^verbatim>\<open>"ab  "\<close> (four characters, two after trimming) is accepted and
  stores the name \<^verbatim>\<open>"ab"\<close>, and one with a name of four spaces is accepted and stores the
  empty name.
\<close>

theorem register_trims_after_length_check:
  "(case handleMSG env0 s0 0
           (Str ''Register'', Obj [(''access'', Num (Fin 549999)), (''name'', Str ''ab  ''),
                                   (''email'', Str ''Bob@C.org''), (''pass'', Str ''Secret#2'')]) of
      Inr s' \<Rightarrow> (node_at (db s') [''users'', ''md5-bob@c.org''], trace s')
    | Inl err \<Rightarrow> (Null, []))
   = (Obj [(''pass'', Str ''sha-Secret#2''), (''email'', Str ''bob@c.org''), (''name'', Str ''ab''),
           (''isBlocked'', Bool False)],
      [DbSet WRITE ''users/md5-bob@c.org''
         (Obj [(''pass'', Str ''sha-Secret#2''), (''email'', Str ''bob@c.org''),
               (''name'', Str ''ab''), (''isBlocked'', Bool False)]),
       DbSet WRITE ''regAccessCode'' (Num (Fin 549999)),
       PostAuth 0 (Str ''ab'') ''md5-bob@c.org'' Undefined None])
   \<and> (case handleMSG env0 s0 0
           (Str ''Register'', Obj [(''access'', Num (Fin 549999)), (''name'', Str ''    ''),
                                   (''email'', Str ''Bob@C.org''), (''pass'', Str ''Secret#2'')]) of
        Inr s' \<Rightarrow> node_at (db s') [''users'', ''md5-bob@c.org'', ''name'']
      | Inl err \<Rightarrow> Null)
     = Str []"
  by code_simp

text \<open>
  C4. The new access code is drawn at random and may be the code just consumed. On the
  sample store the code is 549999 and the draw is one half, which gives 549999 again: the
  first request is accepted and writes Bobby's document, the code in the store is still
  549999, and a second request presenting the same code is accepted and writes Carol's
  document.
\<close>

theorem register_code_can_repeat:
  "(case handleMSG env0 s0 0
           (Str ''Register'', Obj [(''access'', Num (Fin 549999)), (''name'', Str ''Bobby''),
                                   (''email'', Str ''Bob@C.org''), (''pass'', Str ''Secret#2'')]) of
      Inr s' \<Rightarrow>
        (node_at (db s') [''users'', ''md5-bob@c.org'', ''name''],
         dbGet s' ''regAccessCode'' Undefined Undefined,
         (case handleMSG env0 s' 1
                 (Str ''Register'', Obj [(''access'', Num (Fin 549999)), (''name'', Str ''Carol''),
                                         (''email'', Str ''carol@d.net''),
                                         (''pass'', Str ''Secret#3'')]) of
            Inr s'' \<Rightarrow> node_at (db s'') [''users'', ''md5-carol@d.net'', ''name'']
          | Inl err \<Rightarrow> Null))
    | Inl err \<Rightarrow> (Null, Null, Null))
   = (Str ''Bobby'', Num (Fin 549999), Str ''Carol'')"
  by code_simp

end
